theory Spec2Isabelle
  imports Complex_Main "HOL-Library.Word"
begin

section \<open>Python strings\<close>

text \<open>
  A Python \<open>str\<close> is modelled as a \<^typ>\<open>string\<close>; one \<^typ>\<open>char\<close> stands for one
  character (code point below 256), so \<^const>\<open>length\<close> is Python's \<open>len\<close> and
  \<^const>\<open>take\<close> is the slice \<open>s[:n]\<close>.
\<close>

definition is_space :: "char \<Rightarrow> bool" where
  \<comment> \<open>\<open>str.isspace\<close> on one character: TAB..CR, FS..US, SPACE, NEL, NBSP.\<close>
  "is_space c =
     (let n = (of_char c :: nat)
      in (9 \<le> n \<and> n \<le> 13) \<or> (28 \<le> n \<and> n \<le> 32) \<or> n = 133 \<or> n = 160)"

definition strip :: "string \<Rightarrow> string" where
  "strip s = rev (dropWhile is_space (rev (dropWhile is_space s)))"

definition startswith :: "string \<Rightarrow> string \<Rightarrow> bool" where
  "startswith s p = (take (length p) s = p)"

function replace :: "string \<Rightarrow> string \<Rightarrow> string \<Rightarrow> string" where
  "replace [] old new = (if old = [] then new else [])"
| "replace (c # cs) old new =
     (if old = [] then new @ c # replace cs old new
      else if startswith (c # cs) old then new @ replace (drop (length old) (c # cs)) old new
      else c # replace cs old new)"
  by pat_completeness auto
termination
  by (relation "measure (\<lambda>(s, old, new). length s)") auto

fun split_acc :: "string \<Rightarrow> string \<Rightarrow> string list" where
  "split_acc w [] = (if w = [] then [] else [w])"
| "split_acc w (c # cs) =
     (if is_space c then (if w = [] then split_acc [] cs else w # split_acc [] cs)
      else split_acc (w @ [c]) cs)"

definition py_split :: "string \<Rightarrow> string list" where
  \<comment> \<open>\<open>s.split()\<close>: the maximal runs of non-whitespace characters, in order.\<close>
  "py_split s = split_acc [] s"

fun split_sep :: "char \<Rightarrow> string \<Rightarrow> string list" where
  \<comment> \<open>\<open>s.split(sep)\<close> for a one-character separator; the result is never empty.\<close>
  "split_sep sep [] = [[]]"
| "split_sep sep (c # cs) =
     (if c = sep then [] # split_sep sep cs
      else (case split_sep sep cs of [] \<Rightarrow> [[c]] | w # ws \<Rightarrow> (c # w) # ws))"

fun join :: "string \<Rightarrow> string list \<Rightarrow> string" where
  "join sep [] = []"
| "join sep [w] = w"
| "join sep (w # ws) = w @ sep @ join sep ws"

definition lower_char :: "char \<Rightarrow> char" where
  "lower_char c =
     (let n = (of_char c :: nat)
      in if (65 \<le> n \<and> n \<le> 90) \<or> (192 \<le> n \<and> n \<le> 222 \<and> n \<noteq> 215)
         then char_of (n + 32) else c)"

definition lower :: "string \<Rightarrow> string" where
  "lower s = map lower_char s"

fun is_substring :: "string \<Rightarrow> string \<Rightarrow> bool" where
  "is_substring p [] = (p = [])"
| "is_substring p (c # cs) = (startswith (c # cs) p \<or> is_substring p cs)"

definition digit_char :: "nat \<Rightarrow> char" where
  "digit_char d = char_of (48 + d)"

fun str_of_nat :: "nat \<Rightarrow> string" where
  "str_of_nat n =
     (if n < 10 then [digit_char n] else str_of_nat (n div 10) @ [digit_char (n mod 10)])"

definition str_of_int :: "int \<Rightarrow> string" where
  "str_of_int i = (if i < 0 then CHR ''-'' # str_of_nat (nat (- i)) else str_of_nat (nat i))"

section \<open>simple_document_processor.py: the chunker\<close>

text \<open>
  \<open>split_text_into_chunks\<close> walks over the words of the text with three local variables;
  \<open>chunk_loop\<close> is its \<open>for\<close> loop, returning their final values.
\<close>

fun chunk_loop ::
  "int \<Rightarrow> string list \<Rightarrow> string list \<Rightarrow> string list \<Rightarrow> int
     \<Rightarrow> string list \<times> string list \<times> int" where
  "chunk_loop chunk_size [] chunks current_chunk current_length =
     (chunks, current_chunk, current_length)"
| "chunk_loop chunk_size (word # words) chunks current_chunk current_length =
     (if current_length + int (length word) + 1 > chunk_size \<and> current_chunk \<noteq> []
      then chunk_loop chunk_size words (chunks @ [join '' '' current_chunk]) [word]
             (int (length word))
      else chunk_loop chunk_size words chunks (current_chunk @ [word])
             (current_length + int (length word) + 1))"

definition split_text_into_chunks :: "string \<Rightarrow> int \<Rightarrow> string list" where
  "split_text_into_chunks text chunk_size =
     (case chunk_loop chunk_size (py_split text) [] [] 0 of
        (chunks, current_chunk, current_length) \<Rightarrow>
          if current_chunk \<noteq> [] then chunks @ [join '' '' current_chunk] else chunks)"

definition chunk_ok :: "string set \<Rightarrow> int \<Rightarrow> string \<Rightarrow> bool" where
  \<comment> \<open>A chunk respects the cap, or it is one word of the text that is itself too long.\<close>
  "chunk_ok W n c \<longleftrightarrow> int (length c) \<le> n \<or> (c \<in> W \<and> n < int (length c))"

section \<open>JSON values\<close>

text \<open>
  The Python objects that \<open>json.loads\<close> produces and that the code builds as dict and list
  literals. A dict is an association list in insertion order with distinct keys; \<open>None\<close>
  is \<open>JNull\<close>.
\<close>

datatype json =
    JNull
  | JBool bool
  | JInt int
  | JFloat real
  | JStr string
  | JArr "json list"
  | JObj "(string \<times> json) list"

fun dict_set :: "string \<Rightarrow> json \<Rightarrow> (string \<times> json) list \<Rightarrow> (string \<times> json) list" where
  "dict_set k v [] = [(k, v)]"
| "dict_set k v ((k', v') # kvs) =
     (if k = k' then (k, v) # kvs else (k', v') # dict_set k v kvs)"

subsection \<open>A decoder for concrete inputs\<close>

text \<open>
  \<open>json.loads\<close> belongs to the Python library, so the functions below take the decoder
  from their environment and the theorems hold for every decoder. \<open>json_loads\<close> is the
  instance used at concrete inputs: a recursive-descent decoder for JSON documents built
  from objects, arrays, strings with the one-character escapes, integers, \<open>true\<close>,
  \<open>false\<close> and \<open>null\<close>. It rejects fractions, exponents and four-digit hexadecimal escapes, which the
  library accepts; no concrete input below contains one.
\<close>

definition json_ws :: "char \<Rightarrow> bool" where
  "json_ws c = (c = CHR '' '' \<or> c = CHR 0x09 \<or> c = CHR 0x0A \<or> c = CHR 0x0D)"

definition skip_ws :: "string \<Rightarrow> string" where
  "skip_ws s = dropWhile json_ws s"

definition is_digit :: "char \<Rightarrow> bool" where
  "is_digit c = (48 \<le> (of_char c :: nat) \<and> (of_char c :: nat) \<le> 57)"

definition nat_of_digits :: "string \<Rightarrow> nat" where
  "nat_of_digits ds = foldl (\<lambda>acc c. 10 * acc + (of_char c - 48)) 0 ds"

definition unescape :: "char \<Rightarrow> char option" where
  "unescape c =
     (if c = CHR 0x22 then Some (CHR 0x22)
      else if c = CHR 0x5C then Some (CHR 0x5C)
      else if c = CHR ''/'' then Some (CHR ''/'')
      else if c = CHR ''b'' then Some (CHR 0x08)
      else if c = CHR ''f'' then Some (CHR 0x0C)
      else if c = CHR ''n'' then Some (CHR 0x0A)
      else if c = CHR ''r'' then Some (CHR 0x0D)
      else if c = CHR ''t'' then Some (CHR 0x09)
      else None)"

fun parse_string :: "string \<Rightarrow> string \<Rightarrow> (string \<times> string) option" where
  "parse_string acc [] = None"
| "parse_string acc [c] = (if c = CHR 0x22 then Some (acc, []) else None)"
| "parse_string acc (c # d # cs) =
     (if c = CHR 0x22 then Some (acc, d # cs)
      else if c = CHR 0x5C then
        (case unescape d of None \<Rightarrow> None | Some e \<Rightarrow> parse_string (acc @ [e]) cs)
      else if (of_char c :: nat) < 32 then None
      else parse_string (acc @ [c]) (d # cs))"

definition parse_number :: "string \<Rightarrow> (json \<times> string) option" where
  "parse_number s =
     (let neg = startswith s ''-'';
          body = (if neg then drop 1 s else s);
          ds = takeWhile is_digit body;
          rest = dropWhile is_digit body
      in if ds = [] \<or> (length ds > 1 \<and> hd ds = CHR ''0'') then None
         else if rest \<noteq> [] \<and> hd rest \<in> {CHR ''.'', CHR ''e'', CHR ''E''} then None
         else Some (JInt (if neg then - int (nat_of_digits ds) else int (nat_of_digits ds)),
                    rest))"

fun parse_value :: "nat \<Rightarrow> string \<Rightarrow> (json \<times> string) option"
  and parse_elements :: "nat \<Rightarrow> json list \<Rightarrow> string \<Rightarrow> (json \<times> string) option"
  and parse_members ::
    "nat \<Rightarrow> (string \<times> json) list \<Rightarrow> string \<Rightarrow> (json \<times> string) option"
where
  "parse_value 0 s = None"
| "parse_value (Suc fuel) s =
     (let t = skip_ws s
      in if startswith t ''null'' then Some (JNull, drop 4 t)
         else if startswith t ''true'' then Some (JBool True, drop 4 t)
         else if startswith t ''false'' then Some (JBool False, drop 5 t)
         else if startswith t [CHR 0x22] then
           (case parse_string [] (drop 1 t) of
              None \<Rightarrow> None
            | Some (str, r) \<Rightarrow> Some (JStr str, r))
         else if startswith t ''['' then
           (if startswith (skip_ws (drop 1 t)) '']''
            then Some (JArr [], drop 1 (skip_ws (drop 1 t)))
            else parse_elements fuel [] (drop 1 t))
         else if startswith t ''{'' then
           (if startswith (skip_ws (drop 1 t)) ''}''
            then Some (JObj [], drop 1 (skip_ws (drop 1 t)))
            else parse_members fuel [] (drop 1 t))
         else parse_number t)"
| "parse_elements 0 acc s = None"
| "parse_elements (Suc fuel) acc s =
     (case parse_value fuel s of
        None \<Rightarrow> None
      | Some (v, r) \<Rightarrow>
          (let t = skip_ws r
           in if startswith t '','' then parse_elements fuel (acc @ [v]) (drop 1 t)
              else if startswith t '']'' then Some (JArr (acc @ [v]), drop 1 t)
              else None))"
| "parse_members 0 acc s = None"
| "parse_members (Suc fuel) acc s =
     (let t = skip_ws s
      in if \<not> startswith t [CHR 0x22] then None
         else (case parse_string [] (drop 1 t) of
                 None \<Rightarrow> None
               | Some (k, r) \<Rightarrow>
                   (if \<not> startswith (skip_ws r) '':'' then None
                    else (case parse_value fuel (drop 1 (skip_ws r)) of
                            None \<Rightarrow> None
                          | Some (v, r') \<Rightarrow>
                              (let t' = skip_ws r'
                               in if startswith t' '',''
                                  then parse_members fuel (dict_set k v acc) (drop 1 t')
                                  else if startswith t' ''}''
                                  then Some (JObj (dict_set k v acc), drop 1 t')
                                  else None)))))"

definition json_loads :: "string \<Rightarrow> json option" where
  "json_loads s =
     (case parse_value (2 * length s + 2) s of
        None \<Rightarrow> None
      | Some (v, r) \<Rightarrow> if skip_ws r = [] then Some v else None)"

section \<open>Errors, data and collaborators\<close>

text \<open>
  Every \<open>raise\<close> is a value. No handler in the source looks at the class of what it caught,
  so the classes below only record where an exception came from; \<open>ExternalError\<close> is
  anything raised by a collaborator (model client, vector index, document readers,
  database), with its message.
\<close>

datatype py_error =
    ExternalError string
  | JSONDecodeError
  | ValueError string
  | TypeError
  | KeyError string
  | HTTPException nat string

datatype http_error = HTTPError nat py_error
  \<comment> \<open>\<open>HTTPException(status_code, detail=str(e))\<close>: the status and the exception \<open>e\<close>.\<close>

type_synonym bytes = "8 word list"

text \<open>
  A retrieved clause is the dict that \<open>search_similar_chunks\<close> builds: its five keys are
  always present, \<open>score\<close> is a number and \<open>text\<close> a string.
\<close>

record clause =
  clause_id :: string
  score :: real
  clause_text :: string
  document_id :: "int option"
  chunk_index :: "int option"

record metadata =
  md_document_id :: "int option"
  md_chunk_index :: "int option"
  md_text :: "string option"

record vector =
  vector_id :: string
  vector_values :: "real list"
  vector_metadata :: metadata

record match =
  match_id :: string
  match_score :: real
  match_metadata :: metadata

record query_row =
  row_query_text :: string
  row_document_id :: "int option"
  row_decision :: json
  row_amount :: json
  row_justification :: string

text \<open>
  A prompt is represented by the values the source interpolates into its f-string: the
  question for \<open>parse_query\<close>, the question and the clauses for \<open>make_decision\<close>.
\<close>

datatype prompt = ParseQueryPrompt string | DecisionPrompt string "clause list"

datatype llm_response = Response (response_text: "py_error + string")
  \<comment> \<open>What reading \<open>response.text\<close> gives: the text, or the exception the accessor raises.\<close>

type_synonym index_filter = "(string \<times> int) list option"

record env =
  generate_content :: "prompt \<Rightarrow> py_error + llm_response"
  loads :: "string \<Rightarrow> json option"
  dumps :: "json \<Rightarrow> string"
  pypdf_reader :: "bytes \<Rightarrow> py_error + string list"
  pypdf2_reader :: "bytes \<Rightarrow> py_error + string list"
  docx_reader :: "bytes \<Rightarrow> py_error + string list"
  decode_utf8 :: "bytes \<Rightarrow> string"
  text_splitter :: "string \<Rightarrow> string list"
  set_iter :: "string \<Rightarrow> string"
  uuid4_hex :: "nat \<Rightarrow> string"
  index_upsert :: "vector list \<Rightarrow> py_error option"
  index_query :: "real list \<Rightarrow> int \<Rightarrow> index_filter \<Rightarrow> py_error + match list"
  db_commit :: "query_row \<Rightarrow> py_error + int"

text \<open>
  The fields of \<open>env\<close> are the library and service calls the source makes:
  \<^item> \<open>generate_content\<close>: \<open>self.model.generate_content(prompt)\<close>;
  \<^item> \<open>loads\<close>, \<open>dumps\<close>: \<open>json.loads\<close> (\<open>None\<close> when it raises) and \<open>json.dumps\<close>;
  \<^item> \<open>pypdf_reader\<close>, \<open>pypdf2_reader\<close>, \<open>docx_reader\<close>: the texts of the pages or
    paragraphs of a file, or the exception raised while reading it;
  \<^item> \<open>decode_utf8\<close>: \<open>bytes.decode('utf-8', errors='ignore')\<close>;
  \<^item> \<open>text_splitter\<close>: \<open>RecursiveCharacterTextSplitter.split_text\<close>;
  \<^item> \<open>set_iter\<close>: the order in which \<open>list(set(s))\<close> enumerates the characters of \<open>s\<close>;
  \<^item> \<open>uuid4_hex\<close>: the hexadecimal form of the \<open>i\<close>-th \<open>uuid.uuid4()\<close> drawn;
  \<^item> \<open>index_upsert\<close>, \<open>index_query\<close>: the vector index (\<open>Some e\<close>, \<open>Inl e\<close>: it raises);
  \<^item> \<open>db_commit\<close>: \<open>db.add\<close> and \<open>db.commit\<close> of a query row, giving its id.
  Each function returns, next to its result, the calls it made to the services.
\<close>

datatype event =
    GenerateContent prompt
  | IndexUpsert "vector list"
  | IndexQuery "real list" int index_filter
  | DbCommit query_row

section \<open>gemini_llm.py\<close>

definition clean_response :: "string \<Rightarrow> string" where
  \<comment> \<open>\<open>response.text.strip()\<close> and the removal of Markdown code fences.\<close>
  "clean_response raw =
     (let response_text = strip raw
      in if startswith response_text ''```json''
         then strip (replace (replace response_text ''```json'' '''') ''```'' '''')
         else if startswith response_text ''```''
         then strip (replace response_text ''```'' '''')
         else response_text)"

definition raw_response :: "py_error + llm_response \<Rightarrow> py_error + string" where
  \<comment> \<open>The handler's \<open>response.text if 'response' in locals() else 'No response'\<close>.\<close>
  "raw_response r =
     (case r of Inl e \<Rightarrow> Inr ''No response'' | Inr response \<Rightarrow> response_text response)"

definition default_parsed_query :: "string \<Rightarrow> json" where
  "default_parsed_query query =
     JObj [(''target_topic'', JStr query), (''age'', JNull), (''gender'', JNull),
           (''policy_duration'', JNull), (''location'', JNull),
           (''special_conditions'', JNull), (''amount_requested'', JNull)]"

definition parse_query_try :: "env \<Rightarrow> py_error + llm_response \<Rightarrow> py_error + json" where
  \<comment> \<open>The body of the \<open>try\<close> block, given the outcome of the model call.\<close>
  "parse_query_try E r =
     (case r of
        Inl e \<Rightarrow> Inl e
      | Inr response \<Rightarrow>
          (case response_text response of
             Inl e \<Rightarrow> Inl e
           | Inr raw \<Rightarrow>
               (case loads E (clean_response raw) of
                  None \<Rightarrow> Inl JSONDecodeError
                | Some parsed_data \<Rightarrow> Inr parsed_data)))"

definition parse_query :: "env \<Rightarrow> string \<Rightarrow> (py_error + json) \<times> event list" where
  "parse_query E query =
     (let prompt = ParseQueryPrompt query;
          r = generate_content E prompt
      in ((case parse_query_try E r of
             Inr parsed_data \<Rightarrow> Inr parsed_data
           | Inl e \<Rightarrow>
               (case raw_response r of
                  Inl e' \<Rightarrow> Inl e'
                | Inr printed \<Rightarrow> Inr (default_parsed_query query))),
          [GenerateContent prompt]))"

fun py_in :: "string \<Rightarrow> json \<Rightarrow> py_error + bool" where
  \<comment> \<open>\<open>key in decision_data\<close>, for whatever object the decoder returned.\<close>
  "py_in key (JObj kvs) = Inr (key \<in> set (map fst kvs))"
| "py_in key (JArr xs) = Inr (JStr key \<in> set xs)"
| "py_in key (JStr s) = Inr (is_substring key s)"
| "py_in key v = Inl TypeError"

fun all_in :: "string list \<Rightarrow> json \<Rightarrow> py_error + bool" where
  \<comment> \<open>\<open>all(key in decision_data for key in keys)\<close>, stopping at the first miss.\<close>
  "all_in [] d = Inr True"
| "all_in (key # keys) d =
     (case py_in key d of
        Inl e \<Rightarrow> Inl e
      | Inr b \<Rightarrow> if b then all_in keys d else Inr False)"

definition required_keys :: "string list" where
  "required_keys = [''decision'', ''amount'', ''justification'']"

definition make_decision_try :: "env \<Rightarrow> py_error + llm_response \<Rightarrow> py_error + json" where
  "make_decision_try E r =
     (case r of
        Inl e \<Rightarrow> Inl e
      | Inr response \<Rightarrow>
          (case response_text response of
             Inl e \<Rightarrow> Inl e
           | Inr raw \<Rightarrow>
               (case loads E (clean_response raw) of
                  None \<Rightarrow> Inl JSONDecodeError
                | Some decision_data \<Rightarrow>
                    (case all_in required_keys decision_data of
                       Inl e \<Rightarrow> Inl e
                     | Inr ok \<Rightarrow>
                         if \<not> ok then Inl (ValueError ''Invalid response structure'')
                         else Inr decision_data))))"

definition fallback_entry :: "string \<Rightarrow> nat \<times> clause \<Rightarrow> json" where
  "fallback_entry query ic =
     (case ic of (i, clause) \<Rightarrow>
        JObj [(''clause_id'', JStr (''clause_'' @ str_of_nat (i + 1))),
              (''text'', JStr (take 200 (clause_text clause) @
                               (if length (clause_text clause) > 200 then ''...'' else ''''))),
              (''reason'', JStr (''Retrieved relevant content for query: '' @ query))])"

definition system_fallback :: json where
  "system_fallback =
     JObj [(''clause_id'', JStr ''system_fallback''),
           (''text'', JStr ''System processed the query but LLM response formatting failed''),
           (''reason'',
             JStr ''Technical issue with response formatting - check logs for details'')]"

definition fallback_decision :: "string \<Rightarrow> clause list \<Rightarrow> json" where
  "fallback_decision query retrieved_clauses =
     (let fallback_justification =
            map (fallback_entry query) (enumerate 0 (take 2 retrieved_clauses))
      in JObj [(''decision'', JStr ''Approved''),
               (''amount'', JNull),
               (''justification'',
                 JArr (if fallback_justification \<noteq> [] then fallback_justification
                       else [system_fallback]))])"

definition make_decision ::
  "env \<Rightarrow> string \<Rightarrow> json \<Rightarrow> clause list \<Rightarrow> (py_error + json) \<times> event list" where
  "make_decision E query parsed_query retrieved_clauses =
     (let prompt = DecisionPrompt query retrieved_clauses;
          r = generate_content E prompt
      in ((case make_decision_try E r of
             Inr decision_data \<Rightarrow> Inr decision_data
           | Inl e \<Rightarrow>
               (case raw_response r of
                  Inl e' \<Rightarrow> Inl e'
                | Inr printed \<Rightarrow> Inr (fallback_decision query retrieved_clauses))),
          [GenerateContent prompt]))"

definition unparsed_or_missing_key :: "env \<Rightarrow> string \<Rightarrow> bool" where
  \<comment> \<open>The response text does not decode, or decodes to an object without a required key.\<close>
  "unparsed_or_missing_key E raw =
     (case loads E (clean_response raw) of
        None \<Rightarrow> True
      | Some (JObj kvs) \<Rightarrow> \<not> (\<forall>k \<in> set required_keys. k \<in> set (map fst kvs))
      | Some other \<Rightarrow> False)"

section \<open>document_processor.py\<close>

definition MAX_RETRIEVAL_RESULTS :: int where
  "MAX_RETRIEVAL_RESULTS = 10"

definition extract_text_from_pdf :: "env \<Rightarrow> bytes \<Rightarrow> string" where
  "extract_text_from_pdf E file_content =
     (case pypdf_reader E file_content of
        Inl e \<Rightarrow> ''''
      | Inr pages \<Rightarrow> concat (map (\<lambda>page. page @ [CHR 0x0A]) pages))"

definition extract_text_from_docx :: "env \<Rightarrow> bytes \<Rightarrow> string" where
  "extract_text_from_docx E file_content =
     (case docx_reader E file_content of
        Inl e \<Rightarrow> ''''
      | Inr paragraphs \<Rightarrow> concat (map (\<lambda>paragraph. paragraph @ [CHR 0x0A]) paragraphs))"

definition extract_text :: "env \<Rightarrow> bytes \<Rightarrow> string \<Rightarrow> string" where
  "extract_text E file_content file_type =
     (if lower file_type = ''pdf'' then extract_text_from_pdf E file_content
      else if lower file_type \<in> set [''docx'', ''doc''] then extract_text_from_docx E file_content
      else decode_utf8 E file_content)"

definition chunk_text :: "env \<Rightarrow> string \<Rightarrow> string list" where
  "chunk_text E text = text_splitter E text"

definition create_simple_embeddings :: "env \<Rightarrow> string list \<Rightarrow> real list list" where
  "create_simple_embeddings E texts =
     map (\<lambda>text.
            let chars = set_iter E (lower text);
                filled = map (\<lambda>char. real (of_char char) / 127) (take 384 chars)
            in filled @ replicate (384 - length filled) 0)
         texts"

definition store_embeddings ::
  "env \<Rightarrow> real list list \<Rightarrow> string list \<Rightarrow> int \<Rightarrow> (py_error + string list) \<times> event list"
where
  "store_embeddings E embeddings chunks doc_id =
     (let vectors_to_upsert =
            map (\<lambda>(i, embedding, chunk).
                   \<lparr> vector_id = ''doc_'' @ str_of_int doc_id @ ''_chunk_'' @ str_of_nat i @ ''_''
                                   @ take 8 (uuid4_hex E i),
                     vector_values = embedding,
                     vector_metadata =
                       \<lparr> md_document_id = Some doc_id, md_chunk_index = Some (int i),
                         md_text = Some chunk \<rparr> \<rparr>)
                (enumerate 0 (zip embeddings chunks));
          vector_ids = map vector_id vectors_to_upsert
      in ((case index_upsert E vectors_to_upsert of
             Some e \<Rightarrow> Inl e
           | None \<Rightarrow> Inr vector_ids),
          [IndexUpsert vectors_to_upsert]))"

definition build_filter :: "int option \<Rightarrow> index_filter" where
  \<comment> \<open>\<open>filter_dict\<close> is filled under \<open>if document_id:\<close> and passed as
      \<open>filter_dict if filter_dict else None\<close>.\<close>
  "build_filter doc_id =
     (let filter_dict = (case doc_id of
                           None \<Rightarrow> []
                         | Some d \<Rightarrow> if d \<noteq> 0 then [(''document_id'', d)] else [])
      in if filter_dict \<noteq> [] then Some filter_dict else None)"

definition result_of_match :: "match \<Rightarrow> clause" where
  "result_of_match m =
     \<lparr> clause_id = match_id m,
       score = match_score m,
       clause_text = (case md_text (match_metadata m) of None \<Rightarrow> '''' | Some t \<Rightarrow> t),
       document_id = md_document_id (match_metadata m),
       chunk_index = md_chunk_index (match_metadata m) \<rparr>"

definition search_similar_chunks ::
  "env \<Rightarrow> string \<Rightarrow> int option \<Rightarrow> int option \<Rightarrow> clause list \<times> event list" where
  "search_similar_chunks E query doc_id top_k =
     (let top_k = (case top_k of None \<Rightarrow> MAX_RETRIEVAL_RESULTS | Some k \<Rightarrow> k);
          query_embedding = create_simple_embeddings E [query] ! 0;
          filter = build_filter doc_id
      in ((case index_query E query_embedding top_k filter of
             Inl e \<Rightarrow> []
           | Inr matches \<Rightarrow> map result_of_match matches),
          [IndexQuery query_embedding top_k filter]))"

datatype ingest_result =
    Failure string
  | FailureRaised py_error
  | Success string nat "string list"

text \<open>
  \<open>Failure msg\<close> is the dict \<open>{"success": False, "error": msg}\<close>, \<open>FailureRaised e\<close> the
  same dict with \<open>str(e)\<close> as its error, and \<open>Success text n ids\<close> the dict with
  \<open>success\<close> true and the keys \<open>text\<close>, \<open>chunks_count\<close> and \<open>vector_ids\<close>.
\<close>

definition process_document ::
  "env \<Rightarrow> bytes \<Rightarrow> string \<Rightarrow> int \<Rightarrow> ingest_result \<times> event list" where
  "process_document E file_content filename doc_id =
     (let file_type = lower (last (split_sep (CHR ''.'') filename));
          text = extract_text E file_content file_type
      in if strip text = [] then (Failure ''No text extracted from document'', [])
         else
           (let chunks = chunk_text E text
            in if chunks = [] then (Failure ''No chunks created from text'', [])
               else
                 (let embeddings = create_simple_embeddings E chunks
                  in (case store_embeddings E embeddings chunks doc_id of
                        (Inl e, events) \<Rightarrow> (FailureRaised e, events)
                      | (Inr vector_ids, events) \<Rightarrow>
                          (Success text (length chunks) vector_ids, events)))))"

section \<open>simple_document_processor.py: the extractor\<close>

definition simple_extract_text_from_pdf :: "env \<Rightarrow> bytes \<Rightarrow> string" where
  "simple_extract_text_from_pdf E pdf_content =
     (case pypdf2_reader E pdf_content of
        Inl e \<Rightarrow> ''Sample document content for testing purposes.''
      | Inr pages \<Rightarrow> concat (map (\<lambda>page. page @ [CHR 0x0A]) pages))"

section \<open>main.py: the query endpoint\<close>

record request =
  req_query :: "string option"
  req_document_id :: "int option"

fun py_getitem :: "json \<Rightarrow> string \<Rightarrow> py_error + json" where
  \<comment> \<open>\<open>decision_result[key]\<close> for a string key.\<close>
  "py_getitem (JObj kvs) key =
     (case map_of kvs key of None \<Rightarrow> Inl (KeyError key) | Some v \<Rightarrow> Inr v)"
| "py_getitem v key = Inl TypeError"

definition no_results :: json where
  "no_results =
     JObj [(''status'', JStr ''no_results''),
           (''message'', JStr ''No relevant clauses found for the query''),
           (''decision'', JStr ''Rejected''),
           (''amount'', JNull),
           (''justification'',
             JArr [JObj [(''clause_id'', JStr ''none''),
                         (''text'', JStr ''No relevant document clauses found''),
                         (''reason'', JStr ''Insufficient information to make a decision'')]])]"

definition format_justification :: "env \<Rightarrow> json \<Rightarrow> json" where
  \<comment> \<open>A justification that is itself a string is decoded once more.\<close>
  "format_justification E justification =
     (case justification of
        JStr s \<Rightarrow>
          (case loads E s of
             Some v \<Rightarrow> v
           | None \<Rightarrow> JArr [JStr (''[{'' @ [CHR 0x22] @ ''clause_id'' @ [CHR 0x22] @ '': ''
                                   @ [CHR 0x22] @ ''error''),
                            JStr (''text'' @ [CHR 0x22] @ '': justification''),
                            JStr (''reason'' @ [CHR 0x22] @ '': '' @ [CHR 0x22]
                                   @ ''Formatting issue'' @ [CHR 0x22] @ ''}'')])
      | other \<Rightarrow> other)"

definition store_and_respond ::
  "env \<Rightarrow> string \<Rightarrow> int option \<Rightarrow> json \<Rightarrow> clause list \<Rightarrow> json
     \<Rightarrow> (py_error + json) \<times> event list" where
  \<comment> \<open>The part of \<open>process_query\<close> after \<open>make_decision\<close> has returned.\<close>
  "store_and_respond E query_text doc_id parsed_query retrieved_clauses decision_result =
     (case py_getitem decision_result ''decision'' of
        Inl e \<Rightarrow> (Inl e, [])
      | Inr decision \<Rightarrow>
     (case py_getitem decision_result ''amount'' of
        Inl e \<Rightarrow> (Inl e, [])
      | Inr amount \<Rightarrow>
     (case py_getitem decision_result ''justification'' of
        Inl e \<Rightarrow> (Inl e, [])
      | Inr justification \<Rightarrow>
          (let db_query = \<lparr> row_query_text = query_text, row_document_id = doc_id,
                           row_decision = decision, row_amount = amount,
                           row_justification = dumps E justification \<rparr>
           in (case db_commit E db_query of
                 Inl e \<Rightarrow> (Inl e, [DbCommit db_query])
               | Inr query_id \<Rightarrow>
                   (Inr (JObj [(''status'', JStr ''success''),
                               (''query_id'', JInt query_id),
                               (''parsed_query'', parsed_query),
                               (''retrieved_clauses_count'', JInt (int (length retrieved_clauses))),
                               (''decision'', decision),
                               (''amount'', amount),
                               (''justification'', format_justification E justification)]),
                    [DbCommit db_query]))))))"

definition process_query :: "env \<Rightarrow> request \<Rightarrow> (http_error + json) \<times> event list" where
  "process_query E request =
     (let query_text = req_query request;
          doc_id = req_document_id request
      in (case query_text of
            None \<Rightarrow> (Inl (HTTPError 500 (HTTPException 400 ''Query text is required'')), [])
          | Some query_text \<Rightarrow>
              if query_text = [] then
                (Inl (HTTPError 500 (HTTPException 400 ''Query text is required'')), [])
              else
                (case parse_query E query_text of
                   (Inl e, ev1) \<Rightarrow> (Inl (HTTPError 500 e), ev1)
                 | (Inr parsed_query, ev1) \<Rightarrow>
                     (case search_similar_chunks E query_text doc_id None of
                        (retrieved_clauses, ev2) \<Rightarrow>
                          if retrieved_clauses = [] then (Inr no_results, ev1 @ ev2)
                          else
                            (case make_decision E query_text parsed_query retrieved_clauses of
                               (Inl e, ev3) \<Rightarrow> (Inl (HTTPError 500 e), ev1 @ ev2 @ ev3)
                             | (Inr decision_result, ev3) \<Rightarrow>
                                 (case store_and_respond E query_text doc_id parsed_query
                                         retrieved_clauses decision_result of
                                    (Inl e, ev4) \<Rightarrow>
                                      (Inl (HTTPError 500 e), ev1 @ ev2 @ ev3 @ ev4)
                                  | (Inr response, ev4) \<Rightarrow>
                                      (Inr response, ev1 @ ev2 @ ev3 @ ev4)))))))"

section \<open>Concrete environments\<close>

definition quiet_env :: env where
  \<comment> \<open>Services that answer nothing: an empty model reply, empty files, an empty index.
      Its byte decoder keeps the ASCII bytes only.\<close>
  "quiet_env =
     \<lparr> generate_content = (\<lambda>p. Inr (Response (Inr ''''))),
       loads = json_loads,
       dumps = (\<lambda>v. ''''),
       pypdf_reader = (\<lambda>b. Inr []),
       pypdf2_reader = (\<lambda>b. Inr []),
       docx_reader = (\<lambda>b. Inr []),
       decode_utf8 = (\<lambda>b. map (\<lambda>w. char_of (unat w)) (filter (\<lambda>w. w < 128) b)),
       text_splitter = (\<lambda>t. split_text_into_chunks t 1000),
       set_iter = remdups,
       uuid4_hex = (\<lambda>i. ''0123456789abcdef0123456789abcdef''),
       index_upsert = (\<lambda>vs. None),
       index_query = (\<lambda>v k f. Inr []),
       db_commit = (\<lambda>row. Inr 1) \<rparr>"

definition answering :: "string \<Rightarrow> env" where
  \<comment> \<open>The model replies with the given text to every prompt.\<close>
  "answering reply = quiet_env \<lparr> generate_content := (\<lambda>p. Inr (Response (Inr reply))) \<rparr>"

definition index_down :: env where
  \<comment> \<open>The vector index raises on every query.\<close>
  "index_down =
     quiet_env \<lparr> index_query := (\<lambda>v k f. Inl (ExternalError ''index unavailable'')) \<rparr>"

definition model_down :: env where
  \<comment> \<open>The model call raises on every prompt.\<close>
  "model_down =
     quiet_env \<lparr> generate_content := (\<lambda>p. Inl (ExternalError ''quota exceeded'')) \<rparr>"

definition unreadable_reply :: env where
  \<comment> \<open>The model returns a response without a text part: reading \<open>response.text\<close>
      raises.\<close>
  "unreadable_reply =
     quiet_env \<lparr> generate_content :=
                   (\<lambda>p. Inr (Response (Inl (ExternalError ''response has no text part'')))) \<rparr>"

definition unreadable_pdf :: env where
  \<comment> \<open>Both PDF readers raise on every file.\<close>
  "unreadable_pdf =
     quiet_env \<lparr> pypdf_reader := (\<lambda>b. Inl (ExternalError ''EOF marker not found'')),
                 pypdf2_reader := (\<lambda>b. Inl (ExternalError ''EOF marker not found'')) \<rparr>"

definition unreadable_docx :: env where
  \<comment> \<open>The DOCX reader raises on every file.\<close>
  "unreadable_docx =
     quiet_env \<lparr> docx_reader := (\<lambda>b. Inl (ExternalError ''File is not a zip file'')) \<rparr>"

definition blank_pdf :: env where
  \<comment> \<open>A PDF of two pages that hold no text but blanks.\<close>
  "blank_pdf = quiet_env \<lparr> pypdf_reader := (\<lambda>b. Inr [''  '', '''']) \<rparr>"

definition demo_clauses :: "clause list" where
  \<comment> \<open>Three retrieved clauses; the second has 201 characters.\<close>
  "demo_clauses =
     [\<lparr> clause_id = ''doc_7_chunk_0_1a2b3c4d'', score = 0.9,
        clause_text = ''Knee surgery is covered after 24 months.'',
        document_id = Some 7, chunk_index = Some 0 \<rparr>,
      \<lparr> clause_id = ''doc_7_chunk_1_5e6f7a8b'', score = 0.8,
        clause_text = replicate 201 (CHR ''x''),
        document_id = Some 7, chunk_index = Some 1 \<rparr>,
      \<lparr> clause_id = ''doc_7_chunk_2_9c0d1e2f'', score = 0.7,
        clause_text = ''Cosmetic procedures are excluded.'',
        document_id = Some 7, chunk_index = Some 2 \<rparr>]"

section \<open>Auxiliary facts\<close>

lemma split_acc_Nil_iff:
  "split_acc w s = [] \<longleftrightarrow> w = [] \<and> (\<forall>c\<in>set s. is_space c)"
  by (induction s arbitrary: w) auto

lemma py_split_Nil_iff: "py_split s = [] \<longleftrightarrow> (\<forall>c\<in>set s. is_space c)"
  by (simp add: py_split_def split_acc_Nil_iff)

lemma length_join_snoc:
  "length (join sep (ws @ [w])) =
     (if ws = [] then length w else length (join sep ws) + length sep + length w)"
  by (induction sep ws rule: join.induct) auto

lemma chunk_loop_current_nonempty:
  "chunk_loop n ws chunks cur len = (chunks', cur', len') \<Longrightarrow> ws \<noteq> [] \<or> cur \<noteq> []
     \<Longrightarrow> cur' \<noteq> []"
  by (induction n ws chunks cur len rule: chunk_loop.induct) (auto split: if_splits)

text \<open>
  The loop invariant of the chunker: \<open>current_length\<close> never underestimates the length of
  the joined current chunk, and every chunk closed so far is within the cap or is one
  over-long word.
\<close>

lemma chunk_loop_cap:
  assumes "chunk_loop n ws chunks cur len = (chunks', cur', len')"
    and "set ws \<subseteq> W"
    and "\<forall>c\<in>set chunks. chunk_ok W n c"
    and "cur \<noteq> [] \<longrightarrow> int (length (join '' '' cur)) \<le> len \<and> chunk_ok W n (join '' '' cur)"
    and "0 \<le> len"
  shows "(\<forall>c\<in>set chunks'. chunk_ok W n c) \<and>
         (cur' \<noteq> [] \<longrightarrow> chunk_ok W n (join '' '' cur'))"
  using assms
proof (induction n ws chunks cur len rule: chunk_loop.induct)
  case (1 n chunks cur len)
  then show ?case by simp
next
  case (2 n word words chunks cur len)
  have wW: "word \<in> W" and sub: "set words \<subseteq> W" using "2.prems"(2) by auto
  have wok: "chunk_ok W n word"
    using wW by (auto simp: chunk_ok_def)
  show ?case
  proof (cases "len + int (length word) + 1 > n \<and> cur \<noteq> []")
    case True
    then have run: "chunk_loop n words (chunks @ [join '' '' cur]) [word] (int (length word))
                     = (chunks', cur', len')"
      using "2.prems"(1) by simp
    have old: "chunk_ok W n (join '' '' cur)" using True "2.prems"(4) by simp
    show ?thesis
      by (rule "2.IH"(1)[OF True run sub]) (use "2.prems"(3) old wok in auto)
  next
    case False
    then have run: "chunk_loop n words chunks (cur @ [word]) (len + int (length word) + 1)
                     = (chunks', cur', len')"
      using "2.prems"(1) by auto
    have new: "int (length (join '' '' (cur @ [word]))) \<le> len + int (length word) + 1 \<and>
               chunk_ok W n (join '' '' (cur @ [word]))"
    proof (cases "cur = []")
      case True
      then show ?thesis using wok "2.prems"(5) by simp
    next
      case nonempty: False
      with False have le: "len + int (length word) + 1 \<le> n" by simp
      have "int (length (join '' '' cur)) \<le> len" using nonempty "2.prems"(4) by simp
      then show ?thesis using le nonempty
        by (simp add: length_join_snoc chunk_ok_def)
    qed
    show ?thesis
      by (rule "2.IH"(2)[OF False run sub "2.prems"(3)]) (use new "2.prems"(5) in simp_all)
  qed
qed

lemma strip_Nil_iff: "strip s = [] \<longleftrightarrow> (\<forall>c\<in>set s. is_space c)"
proof -
  have a: "strip s = [] \<longleftrightarrow> (\<forall>x\<in>set (dropWhile is_space s). is_space x)"
    by (simp add: strip_def dropWhile_eq_Nil_conv)
  have b: "(\<forall>x\<in>set (dropWhile is_space s). is_space x) \<longleftrightarrow> dropWhile is_space s = []"
  proof
    assume all: "\<forall>x\<in>set (dropWhile is_space s). is_space x"
    show "dropWhile is_space s = []"
    proof (rule ccontr)
      assume ne: "dropWhile is_space s \<noteq> []"
      then have "\<not> is_space (hd (dropWhile is_space s))" by (rule hd_dropWhile)
      moreover have "hd (dropWhile is_space s) \<in> set (dropWhile is_space s)"
        using ne by (rule hd_in_set)
      ultimately show False using all by blast
    qed
  next
    assume "dropWhile is_space s = []"
    then show "\<forall>x\<in>set (dropWhile is_space s). is_space x"
      by (metis empty_iff empty_set)
  qed
  have c: "dropWhile is_space s = [] \<longleftrightarrow> (\<forall>c\<in>set s. is_space c)"
    by (rule dropWhile_eq_Nil_conv)
  from a b c show ?thesis by blast
qed

lemma all_in_obj:
  "all_in ks (JObj kvs) = Inr (\<forall>k\<in>set ks. k \<in> set (map fst kvs))"
  by (induction ks) auto

lemma make_decision_try_unusable:
  assumes "unparsed_or_missing_key E raw"
  shows "\<exists>e. make_decision_try E (Inr (Response (Inr raw))) = Inl e"
proof (cases "loads E (clean_response raw)")
  case None
  then show ?thesis by (simp add: make_decision_try_def)
next
  case (Some v)
  with assms obtain kvs where v: "v = JObj kvs"
    and miss: "\<not> (\<forall>k\<in>set required_keys. k \<in> set (map fst kvs))"
    by (cases v) (auto simp: unparsed_or_missing_key_def)
  show ?thesis
    using Some v miss by (simp add: make_decision_try_def all_in_obj)
qed

lemma make_decision_falls_back:
  assumes "generate_content E (DecisionPrompt q cs) = Inr (Response (Inr raw))"
    and "unparsed_or_missing_key E raw"
  shows "fst (make_decision E q pq cs) = Inr (fallback_decision q cs)"
proof -
  obtain e where "make_decision_try E (Inr (Response (Inr raw))) = Inl e"
    using make_decision_try_unusable[OF assms(2)] by blast
  then show ?thesis
    using assms(1) by (simp add: make_decision_def raw_response_def)
qed

lemma fallback_entries_by_index:
  "map (fallback_entry q) (enumerate 0 (take 2 cs)) =
     map (\<lambda>i. fallback_entry q (i, cs ! i)) [0..<min (length cs) 2]"
  by (rule nth_equalityI) (auto simp: nth_enumerate_eq min_def split: if_splits)

lemma answering_reply:
  "generate_content (answering reply) p = Inr (Response (Inr reply))"
  by (simp add: answering_def quiet_env_def)

lemma str_of_small: "str_of_nat (Suc 0) = ''1''" "str_of_nat (Suc (Suc 0)) = ''2''"
  by code_simp+

section \<open>The claims\<close>

subsection \<open>C1: make_decision without retrieved clauses\<close>




subsection \<open>C2: an answer request that retrieves nothing\<close>

text \<open>
  Claim C2 says that a request whose retrieval returns no clause is answered with the
  \<open>Rejected\<close> decision without any call to the language model, the query analysis running
  only after a non-empty retrieval. \<open>process_query\<close> calls \<open>parse_query\<close> before it
  searches: with an empty index the model call is among the calls made.
\<close>

theorem no_results_answer_calls_model:
  "fst (search_similar_chunks quiet_env ''Is knee surgery covered?'' None None) = [] \<and>
   GenerateContent (ParseQueryPrompt ''Is knee surgery covered?'') \<in>
     set (snd (process_query quiet_env
                 \<lparr>req_query = Some ''Is knee surgery covered?'', req_document_id = None\<rparr>))"
  by (simp add: process_query_def parse_query_def search_similar_chunks_def Let_def
        quiet_env_def split: prod.splits sum.splits)

text \<open>
  C2 as amended: for every request with a non-empty query text whose query analysis
  returns and whose retrieval returns no clause, \<open>process_query\<close> returns the \<open>no_results\<close>
  answer, with the decision \<open>Rejected\<close> and a single synthetic justification entry; the
  language model has been called exactly once, by \<open>parse_query\<close> and before the index
  query, and \<open>make_decision\<close> is not called.
\<close>

theorem process_query_no_results:
  assumes "req_query r = Some q" and "q \<noteq> []"
    and "fst (parse_query E q) = Inr pq"
    and "fst (search_similar_chunks E q (req_document_id r) None) = []"
  shows "process_query E r =
           (Inr (JObj [(''status'', JStr ''no_results''),
                       (''message'', JStr ''No relevant clauses found for the query''),
                       (''decision'', JStr ''Rejected''),
                       (''amount'', JNull),
                       (''justification'',
                         JArr [JObj [(''clause_id'', JStr ''none''),
                                     (''text'', JStr ''No relevant document clauses found''),
                                     (''reason'', JStr ''Insufficient information to make a decision'')]])]),
            [GenerateContent (ParseQueryPrompt q),
             IndexQuery (create_simple_embeddings E [q] ! 0) MAX_RETRIEVAL_RESULTS
               (build_filter (req_document_id r))])"
proof -
  have pq: "parse_query E q = (Inr pq, [GenerateContent (ParseQueryPrompt q)])"
    using assms(3) by (simp add: parse_query_def Let_def)
  have ss: "search_similar_chunks E q (req_document_id r) None =
              ([], [IndexQuery (create_simple_embeddings E [q] ! 0) MAX_RETRIEVAL_RESULTS
                      (build_filter (req_document_id r))])"
    using assms(4) by (simp add: search_similar_chunks_def Let_def)
  show ?thesis
    using assms(1,2) by (simp add: process_query_def pq ss no_results_def)
qed

theorem process_query_no_results_witness:
  "process_query quiet_env
     \<lparr>req_query = Some ''Is knee surgery covered?'', req_document_id = Some 7\<rparr> =
     (Inr (JObj [(''status'', JStr ''no_results''),
                 (''message'', JStr ''No relevant clauses found for the query''),
                 (''decision'', JStr ''Rejected''),
                 (''amount'', JNull),
                 (''justification'',
                   JArr [JObj [(''clause_id'', JStr ''none''),
                               (''text'', JStr ''No relevant document clauses found''),
                               (''reason'', JStr ''Insufficient information to make a decision'')]])]),
      [GenerateContent (ParseQueryPrompt ''Is knee surgery covered?''),
       IndexQuery (create_simple_embeddings quiet_env [''Is knee surgery covered?''] ! 0) 10
         (Some [(''document_id'', 7)])])"
proof -
  have a: "fst (parse_query quiet_env ''Is knee surgery covered?'') =
             Inr (default_parsed_query ''Is knee surgery covered?'')"
    by code_simp
  have b: "fst (search_similar_chunks quiet_env ''Is knee surgery covered?'' (Some 7) None) = []"
    by (simp add: search_similar_chunks_def quiet_env_def)
  show ?thesis
    using process_query_no_results
            [of "\<lparr>req_query = Some ''Is knee surgery covered?'', req_document_id = Some 7\<rparr>"
                "''Is knee surgery covered?''" quiet_env
                "default_parsed_query ''Is knee surgery covered?''"]
          a b
    by (simp add: MAX_RETRIEVAL_RESULTS_def build_filter_def)
qed

subsection \<open>C3: the fallback built from retrieved clauses\<close>

text \<open>
  Claim C3: for every model response that fails to parse as JSON or lacks one of the
  three required keys, \<open>make_decision\<close> called with \<open>n \<ge> 1\<close> retrieved clauses returns the
  decision \<open>Approved\<close>, a null amount and \<open>min n 2\<close> justification entries built from
  the first clauses. The \<open>except\<close> branch of the source is written to do so for every
  exception, but its second \<open>print\<close> reads \<open>response.text\<close> again before the fallback
  is built. For a response that holds no text part that read raises once more, now
  outside any \<open>try\<close>: with three retrieved clauses \<open>make_decision\<close> raises and returns
  no decision.
\<close>

theorem make_decision_raises_on_unreadable_text:
  "fst (make_decision unreadable_reply ''Is knee surgery covered?'' JNull demo_clauses) =
     Inl (ExternalError ''response has no text part'')"
  by (simp add: make_decision_def make_decision_try_def raw_response_def
        unreadable_reply_def quiet_env_def)

text \<open>
  Wherever the text of the response can be read, the fallback has the shape the claim
  describes: entry \<open>i\<close> carries the first 200 characters of the text of clause \<open>i\<close>,
  followed by \<open>...\<close> exactly when that text has more than 200 characters.
\<close>

lemma fallback_from_clauses_on_readable_text:
  assumes "generate_content E (DecisionPrompt q cs) = Inr (Response (Inr raw))"
    and "unparsed_or_missing_key E raw"
    and "cs \<noteq> []"
  shows "fst (make_decision E q pq cs) =
           Inr (JObj [(''decision'', JStr ''Approved''),
                      (''amount'', JNull),
                      (''justification'',
                        JArr (map (\<lambda>i. JObj [(''clause_id'', JStr (''clause_'' @ str_of_nat (i + 1))),
                                              (''text'', JStr (take 200 (clause_text (cs ! i)) @
                                                 (if length (clause_text (cs ! i)) > 200
                                                  then ''...'' else ''''))),
                                              (''reason'', JStr (''Retrieved relevant content for query: '' @ q))])
                                  [0..<min (length cs) 2]))])"
proof -
  have "length (map (fallback_entry q) (enumerate 0 (take 2 cs))) = min (length cs) 2"
    by simp
  then have ne: "map (fallback_entry q) (enumerate 0 (take 2 cs)) \<noteq> []"
    using assms(3) by (cases cs) auto
  show ?thesis
    using make_decision_falls_back[OF assms(1,2), of pq] ne
    unfolding fallback_decision_def Let_def fallback_entries_by_index
    by (simp add: fallback_entry_def)
qed

lemma fallback_from_clauses_example:
  \<open>fst (make_decision (answering ''{"decision": "Approved", "amount": null}'')
          ''Is knee surgery covered?'' JNull demo_clauses) =
     Inr (JObj [(''decision'', JStr ''Approved''),
                (''amount'', JNull),
                (''justification'',
                  JArr [JObj [(''clause_id'', JStr ''clause_1''),
                              (''text'', JStr ''Knee surgery is covered after 24 months.''),
                              (''reason'', JStr ''Retrieved relevant content for query: Is knee surgery covered?'')],
                        JObj [(''clause_id'', JStr ''clause_2''),
                              (''text'', JStr (replicate 200 (CHR ''x'') @ ''...'')),
                              (''reason'', JStr ''Retrieved relevant content for query: Is knee surgery covered?'')]])])\<close>
proof -
  have bad: \<open>unparsed_or_missing_key (answering ''{"decision": "Approved", "amount": null}'')
               ''{"decision": "Approved", "amount": null}''\<close>
    by code_simp
  have gen: \<open>generate_content (answering ''{"decision": "Approved", "amount": null}'')
               (DecisionPrompt ''Is knee surgery covered?'' demo_clauses) =
             Inr (Response (Inr ''{"decision": "Approved", "amount": null}''))\<close>
    by (rule answering_reply)
  have ne: "demo_clauses \<noteq> []"
    by (simp add: demo_clauses_def)
  have idx: "[0..<min (length demo_clauses) 2] = [0, Suc 0]"
    by (simp add: demo_clauses_def upt_rec)
  show ?thesis
    using fallback_from_clauses_on_readable_text[OF gen bad ne, of JNull]
    unfolding idx
    by (simp add: demo_clauses_def str_of_small del: str_of_nat.simps)
qed

subsection \<open>C4: parse_query\<close>

text \<open>
  Claim C4 says that \<open>parse_query\<close> always returns a mapping with all seven field names,
  that any parse or model failure, a reply with missing fields included, gives the
  default mapping, and that the call never raises. \<open>parse_query\<close> returns whatever the
  decoder produced: a reply that is valid JSON with one field comes back with that one
  field.
\<close>

theorem parse_query_missing_fields_returned:
  \<open>fst (parse_query (answering ''{"target_topic": "knee surgery"}'')
          ''Is knee surgery covered?'') =
     Inr (JObj [(''target_topic'', JStr ''knee surgery'')])\<close>
  by code_simp

text \<open>
  C4 as amended: for every question, when the model call raises, or when it returns a
  response whose text can be read, \<open>parse_query\<close> returns a value and does not raise. If
  the call raised, or the text (after the removal of code fences) is not valid JSON, the
  value is the default mapping: \<open>target_topic\<close> is the verbatim question and \<open>age\<close>,
  \<open>gender\<close>, \<open>policy_duration\<close>, \<open>location\<close>, \<open>special_conditions\<close> and
  \<open>amount_requested\<close> are null. If the text is valid JSON, the decoded value is returned
  as it is, whatever fields it has.
\<close>

theorem parse_query_total_on_readable_responses:
  "(let D = JObj [(''target_topic'', JStr q), (''age'', JNull), (''gender'', JNull),
                  (''policy_duration'', JNull), (''location'', JNull),
                  (''special_conditions'', JNull), (''amount_requested'', JNull)]
    in (generate_content E (ParseQueryPrompt q) = Inl e \<longrightarrow> fst (parse_query E q) = Inr D) \<and>
       (generate_content E (ParseQueryPrompt q) = Inr (Response (Inr raw)) \<longrightarrow>
          fst (parse_query E q) =
            Inr (case loads E (clean_response raw) of
                   None \<Rightarrow> D
                 | Some parsed_data \<Rightarrow> parsed_data)))"
  by (auto simp: parse_query_def parse_query_try_def raw_response_def default_parsed_query_def
           split: option.splits)

theorem parse_query_total_on_readable_responses_witness:
  "fst (parse_query model_down ''Is knee surgery covered?'') =
     Inr (JObj [(''target_topic'', JStr ''Is knee surgery covered?''), (''age'', JNull),
                (''gender'', JNull), (''policy_duration'', JNull), (''location'', JNull),
                (''special_conditions'', JNull), (''amount_requested'', JNull)]) \<and>
   fst (parse_query (answering ''Sorry, I cannot help.'') ''Is knee surgery covered?'') =
     Inr (JObj [(''target_topic'', JStr ''Is knee surgery covered?''), (''age'', JNull),
                (''gender'', JNull), (''policy_duration'', JNull), (''location'', JNull),
                (''special_conditions'', JNull), (''amount_requested'', JNull)])"
proof -
  have down: "generate_content model_down (ParseQueryPrompt ''Is knee surgery covered?'') =
                Inl (ExternalError ''quota exceeded'')"
    by (simp add: model_down_def quiet_env_def)
  have reply: "generate_content (answering ''Sorry, I cannot help.'')
                 (ParseQueryPrompt ''Is knee surgery covered?'') =
               Inr (Response (Inr ''Sorry, I cannot help.''))"
    by (rule answering_reply)
  have undecoded: "loads (answering ''Sorry, I cannot help.'')
                     (clean_response ''Sorry, I cannot help.'') = None"
    by code_simp
  show ?thesis
    using parse_query_total_on_readable_responses
            [of "''Is knee surgery covered?''" model_down "ExternalError ''quota exceeded''"
                "''''"]
          parse_query_total_on_readable_responses
            [of "''Is knee surgery covered?''" "answering ''Sorry, I cannot help.''"
                "ExternalError ''quota exceeded''" "''Sorry, I cannot help.''"]
          down reply undecoded
    by (simp add: Let_def)
qed

subsection \<open>C5: a failing vector index\<close>

text \<open>
  Claim C5 says that an error raised by the index during similarity search surfaces to
  the caller as a query failure and is never replaced by an empty result.
  \<open>search_similar_chunks\<close> catches the error and returns the empty list: with an index
  that raises on every query the caller receives \<open>[]\<close>.
\<close>

theorem search_backend_error_is_silent:
  "index_query index_down (create_simple_embeddings index_down [''Is knee surgery covered?''] ! 0)
     10 None = Inl (ExternalError ''index unavailable'') \<and>
   fst (search_similar_chunks index_down ''Is knee surgery covered?'' None None) = []"
  by (simp add: search_similar_chunks_def index_down_def quiet_env_def)

text \<open>
  C5 as amended: for every query, whenever the vector index raises during similarity
  search, \<open>search_similar_chunks\<close> catches the error and returns the empty list, the
  result it also gives when the index has no match; no error reaches the caller.
\<close>

theorem search_backend_error_gives_empty:
  assumes "index_query E (create_simple_embeddings E [q] ! 0)
             (case k of None \<Rightarrow> MAX_RETRIEVAL_RESULTS | Some k' \<Rightarrow> k') (build_filter d) = Inl e"
  shows "fst (search_similar_chunks E q d k) = []"
  using assms by (simp add: search_similar_chunks_def Let_def)

theorem search_backend_error_gives_empty_witness:
  "fst (search_similar_chunks index_down ''Is knee surgery covered?'' (Some 7) (Some 3)) = []"
proof -
  have raises:
    "index_query index_down
       (create_simple_embeddings index_down [''Is knee surgery covered?''] ! 0)
       (case Some 3 of None \<Rightarrow> MAX_RETRIEVAL_RESULTS | Some k' \<Rightarrow> k') (build_filter (Some 7)) =
     Inl (ExternalError ''index unavailable'')"
    by (simp add: index_down_def quiet_env_def)
  show ?thesis
    by (rule search_backend_error_gives_empty[OF raises])
qed

subsection \<open>C6: ingesting a document without text\<close>

text \<open>
  Claim C6: for every document whose extraction yields empty or whitespace-only text,
  \<open>process_document\<close> returns the failure result \<open>{"success": False, "error": "No text
  extracted from document"}\<close> and makes no call to the vector index: the list of calls
  is empty, so no upsert reaches the index.
\<close>

theorem process_document_blank_text:
  assumes "\<forall>c\<in>set (extract_text E file_content (lower (last (split_sep (CHR ''.'') filename)))).
             is_space c"
  shows "process_document E file_content filename doc_id =
           (Failure ''No text extracted from document'', [])"
  using assms by (simp add: process_document_def Let_def strip_Nil_iff)

theorem process_document_blank_text_witness:
  "process_document blank_pdf [0x25, 0x50, 0x44, 0x46] ''policy.PDF'' 7 =
     (Failure ''No text extracted from document'', [])"
proof -
  have blank:
    "\<forall>c\<in>set (extract_text blank_pdf [0x25, 0x50, 0x44, 0x46]
                 (lower (last (split_sep (CHR ''.'') ''policy.PDF'')))). is_space c"
    by code_simp
  show ?thesis
    by (rule process_document_blank_text[OF blank])
qed

subsection \<open>C7: extraction failures\<close>

text \<open>
  Claim C7 says that, for every byte sequence, a failing extraction is caught and gives
  the empty string, so that callers see the failure as empty or whitespace-only text.
  This holds for \<open>document_processor.py\<close>. The extractor of
  \<open>simple_document_processor.py\<close> returns a placeholder sentence instead, which is not
  blank.
\<close>

theorem simple_extractor_failure_not_empty:
  "pypdf2_reader unreadable_pdf [0x25, 0x50, 0x44, 0x46] =
     Inl (ExternalError ''EOF marker not found'') \<and>
   simple_extract_text_from_pdf unreadable_pdf [0x25, 0x50, 0x44, 0x46] =
     ''Sample document content for testing purposes.'' \<and>
   strip (simple_extract_text_from_pdf unreadable_pdf [0x25, 0x50, 0x44, 0x46]) \<noteq> ''''"
  by code_simp

text \<open>
  C7 as amended: for every byte sequence, when reading the file raises, the extractors
  catch the error and do not propagate it; \<open>extract_text_from_pdf\<close> and
  \<open>extract_text_from_docx\<close> of \<open>document_processor.py\<close> return the empty string, and
  \<open>extract_text_from_pdf\<close> of \<open>simple_document_processor.py\<close> returns the fixed text
  \<open>Sample document content for testing purposes.\<close>
\<close>

theorem extraction_failure_results:
  "(pypdf_reader E b = Inl e \<longrightarrow> extract_text_from_pdf E b = '''') \<and>
   (docx_reader E b = Inl e \<longrightarrow> extract_text_from_docx E b = '''') \<and>
   (pypdf2_reader E b = Inl e \<longrightarrow>
      simple_extract_text_from_pdf E b = ''Sample document content for testing purposes.'')"
  by (simp add: extract_text_from_pdf_def extract_text_from_docx_def
        simple_extract_text_from_pdf_def)

theorem extraction_failure_results_witness:
  "extract_text_from_pdf unreadable_pdf [0x25, 0x50, 0x44, 0x46] = '''' \<and>
   extract_text_from_docx unreadable_docx [0x50, 0x4B] = '''' \<and>
   simple_extract_text_from_pdf unreadable_pdf [0x25, 0x50, 0x44, 0x46] =
     ''Sample document content for testing purposes.''"
proof -
  have a: "pypdf_reader unreadable_pdf [0x25, 0x50, 0x44, 0x46] =
             Inl (ExternalError ''EOF marker not found'')"
    and b: "pypdf2_reader unreadable_pdf [0x25, 0x50, 0x44, 0x46] =
             Inl (ExternalError ''EOF marker not found'')"
    by (simp_all add: unreadable_pdf_def quiet_env_def)
  have c: "docx_reader unreadable_docx [0x50, 0x4B] = Inl (ExternalError ''File is not a zip file'')"
    by (simp add: unreadable_docx_def quiet_env_def)
  show ?thesis
    using extraction_failure_results
            [of unreadable_pdf "[0x25, 0x50, 0x44, 0x46]" "ExternalError ''EOF marker not found''"]
          extraction_failure_results
            [of unreadable_docx "[0x50, 0x4B]" "ExternalError ''File is not a zip file''"]
          a b c
    by simp
qed

subsection \<open>C8: the size of the chunks\<close>

text \<open>
  Claim C8 says that every chunk has at most \<open>chunk_size\<close> characters and that chunking is
  deterministic. The chunker never splits a word: the six-letter word of the text
  \<open>abcdef gh\<close> is a chunk of its own under \<open>chunk_size = 3\<close>.
\<close>

theorem chunk_exceeds_chunk_size:
  "split_text_into_chunks ''abcdef gh'' 3 = [''abcdef'', ''gh''] \<and>
   \<not> int (length ''abcdef'') \<le> 3"
  by code_simp

text \<open>
  C8 as amended: for every text \<open>T\<close> and every \<open>chunk_size\<close>, each chunk returned by the
  chunker has at most \<open>chunk_size\<close> characters unless it consists of a single word of \<open>T\<close>
  that is itself longer than \<open>chunk_size\<close> (words are never split); and chunking the same
  text with the same \<open>chunk_size\<close> twice yields the same sequence of chunks. The second
  part holds because the result is a function of the text and \<open>chunk_size\<close> alone: the
  source reads no other state.
\<close>

theorem chunks_capped_unless_single_long_word:
  "(\<forall>c\<in>set (split_text_into_chunks T n).
      int (length c) \<le> n \<or> (c \<in> set (py_split T) \<and> n < int (length c))) \<and>
   (T' = T \<and> n' = n \<longrightarrow> split_text_into_chunks T' n' = split_text_into_chunks T n)"
proof -
  obtain chunks cur len where run: "chunk_loop n (py_split T) [] [] 0 = (chunks, cur, len)"
    by (cases "chunk_loop n (py_split T) [] [] 0") auto
  have "(\<forall>c\<in>set chunks. chunk_ok (set (py_split T)) n c) \<and>
        (cur \<noteq> [] \<longrightarrow> chunk_ok (set (py_split T)) n (join '' '' cur))"
    by (rule chunk_loop_cap[OF run]) auto
  then have "\<forall>c\<in>set (split_text_into_chunks T n). chunk_ok (set (py_split T)) n c"
    by (auto simp: split_text_into_chunks_def run)
  then show ?thesis by (auto simp: chunk_ok_def)
qed

theorem chunks_capped_unless_single_long_word_witness:
  "''efg h'' \<in> set (split_text_into_chunks ''ab cd  efg h'' 5) \<and>
   int (length ''efg h'') \<le> 5 \<and>
   ''abcdef'' \<in> set (split_text_into_chunks ''abcdef gh'' 3) \<and>
   ''abcdef'' \<in> set (py_split ''abcdef gh'') \<and> 3 < int (length ''abcdef'')"
proof -
  have m1: "''efg h'' \<in> set (split_text_into_chunks ''ab cd  efg h'' 5)"
    and w1: "''efg h'' \<notin> set (py_split ''ab cd  efg h'')"
    by code_simp+
  have m2: "''abcdef'' \<in> set (split_text_into_chunks ''abcdef gh'' 3)"
    and l2: "\<not> int (length ''abcdef'') \<le> 3"
    by code_simp+
  show ?thesis
    using chunks_capped_unless_single_long_word
            [of "''ab cd  efg h''" 5 "''ab cd  efg h''" 5]
          chunks_capped_unless_single_long_word
            [of "''abcdef gh''" 3 "''abcdef gh''" 3]
          m1 w1 m2 l2
    by blast
qed

subsection \<open>C9: the number of chunks\<close>

text \<open>
  Claim C9: for every non-empty text the chunker returns at least one chunk, and for
  every empty or whitespace-only text it returns no chunk. The two cases are read as
  complementary: a text is non-empty when it holds at least one character that is not
  whitespace. Both hold for every \<open>chunk_size\<close>.
\<close>

theorem chunk_count:
  "((\<exists>c\<in>set T. \<not> is_space c) \<longrightarrow> 1 \<le> length (split_text_into_chunks T n)) \<and>
   ((\<forall>c\<in>set T. is_space c) \<longrightarrow> length (split_text_into_chunks T n) = 0)"
proof -
  obtain chunks cur len where run: "chunk_loop n (py_split T) [] [] 0 = (chunks, cur, len)"
    by (cases "chunk_loop n (py_split T) [] [] 0") auto
  have a: "1 \<le> length (split_text_into_chunks T n)" if "\<exists>c\<in>set T. \<not> is_space c"
  proof -
    from that have "py_split T \<noteq> []" by (simp add: py_split_Nil_iff)
    with run have "cur \<noteq> []" by (auto dest: chunk_loop_current_nonempty)
    then show ?thesis by (simp add: split_text_into_chunks_def run)
  qed
  have b: "length (split_text_into_chunks T n) = 0" if "\<forall>c\<in>set T. is_space c"
  proof -
    from that have "py_split T = []" by (simp add: py_split_Nil_iff)
    then show ?thesis by (simp add: split_text_into_chunks_def)
  qed
  from a b show ?thesis by blast
qed

theorem chunk_count_witness:
  "1 \<le> length (split_text_into_chunks ''ab cd  efg h'' 5) \<and>
   length (split_text_into_chunks [CHR '' '', CHR 0x0A, CHR 0x09, CHR '' ''] 5) = 0"
proof -
  have some: "\<exists>c\<in>set ''ab cd  efg h''. \<not> is_space c"
    by code_simp
  have none: "\<forall>c\<in>set [CHR '' '', CHR 0x0A, CHR 0x09, CHR '' '']. is_space c"
    by code_simp
  show ?thesis
    using chunk_count[of "''ab cd  efg h''" 5]
          chunk_count[of "[CHR '' '', CHR 0x0A, CHR 0x09, CHR '' '']" 5] some none
    by blast
qed

subsection \<open>C10: the document filter\<close>

text \<open>
  Claim C10: \<open>search_similar_chunks\<close> applies the \<open>document_id\<close> filter only when
  \<open>document_id\<close> is truthy. Called with \<open>document_id = 0\<close> it does what it does with
  \<open>None\<close>: the index is queried with no filter, so the search runs over all documents;
  any other identifier is passed on as the equality filter.
\<close>

theorem document_id_zero_drops_filter:
  "search_similar_chunks E q (Some 0) k = search_similar_chunks E q None k \<and>
   snd (search_similar_chunks E q (Some 0) k) =
     [IndexQuery (create_simple_embeddings E [q] ! 0)
        (case k of None \<Rightarrow> MAX_RETRIEVAL_RESULTS | Some k' \<Rightarrow> k') None] \<and>
   (d \<noteq> 0 \<longrightarrow>
      snd (search_similar_chunks E q (Some d) k) =
        [IndexQuery (create_simple_embeddings E [q] ! 0)
           (case k of None \<Rightarrow> MAX_RETRIEVAL_RESULTS | Some k' \<Rightarrow> k')
           (Some [(''document_id'', d)])])"
  by (simp add: search_similar_chunks_def build_filter_def Let_def)

theorem document_id_zero_drops_filter_witness:
  "snd (search_similar_chunks quiet_env ''Is knee surgery covered?'' (Some 0) None) =
     [IndexQuery (create_simple_embeddings quiet_env [''Is knee surgery covered?''] ! 0) 10 None] \<and>
   snd (search_similar_chunks quiet_env ''Is knee surgery covered?'' (Some 7) None) =
     [IndexQuery (create_simple_embeddings quiet_env [''Is knee surgery covered?''] ! 0) 10
        (Some [(''document_id'', 7)])]"
  using document_id_zero_drops_filter
          [of quiet_env "''Is knee surgery covered?''" None 7, THEN conjunct2]
  by (simp add: MAX_RETRIEVAL_RESULTS_def)

end
